theory Spec2Isabelle
  imports Main
begin

section \<open>Cursor positions of \<open>src/motion/position.ts\<close>\<close>

text \<open>
  The class \<open>Position\<close> computes cursor positions over the lines of the active document.
  The document is read through \<open>TextEditor\<close>; here it is an explicit argument, the list of
  the lines' texts. A JavaScript string is a sequence of UTF-16 code units, so a line is a
  list of code units (natural numbers), and \<open>length\<close> is the string's \<open>.length\<close>.
\<close>

subsection \<open>Data\<close>

type_synonym jsstring = "nat list"

type_synonym buffer = "jsstring list"

definition js :: "string \<Rightarrow> jsstring" where
  "js s = map of_char s"

text \<open>
  \<open>enum PositionOptions { CharacterWiseInclusive, CharacterWiseExclusive }\<close> is a numeric
  enum: its members are the numbers 0 and 1, and a variable of the enum's type holds any
  number. The field \<open>positionOptions\<close> is initialised to \<open>null\<close>, which is \<open>None\<close> here.
\<close>

type_synonym PositionOptions = nat

definition CharacterWiseInclusive :: PositionOptions where
  "CharacterWiseInclusive = 0"

definition CharacterWiseExclusive :: PositionOptions where
  "CharacterWiseExclusive = 1"

text \<open>
  \<open>Position\<close> extends \<open>vscode.Position\<close>, whose line and character are non-negative
  numbers. The two regular expressions of an instance are compiled from static strings
  and are passed to the word motions as their character set.
\<close>

record Position =
  line :: nat
  character :: nat
  positionOptions :: "PositionOptions option"

record TextLine =
  lineText :: jsstring
  lineNumber :: nat
  firstNonWhitespaceCharacterIndex :: nat

datatype error =
  UnhandledPositionOptions
  | LineOutOfRange

subsection \<open>The document, as \<open>TextEditor\<close> reads it\<close>

text \<open>
  \<open>\s\<close> of a JavaScript regular expression: the white space and line terminator code
  units of ECMAScript.
\<close>

definition jsWhiteSpace :: "nat \<Rightarrow> bool" where
  "jsWhiteSpace c \<longleftrightarrow>
     c \<in> {9, 10, 11, 12, 13, 32, 160, 5760, 8232, 8233, 8239, 8287, 12288, 65279}
     \<or> (8192 \<le> c \<and> c \<le> 8202)"

text \<open>
  Modelled from the spec: the class \<open>TextEditor\<close> (\<open>src/textEditor.ts\<close>), the read-only
  buffer collaborator: \<open>lineCount()\<close>; \<open>lineText(line)\<close>, which fails for an out-of-range
  line; \<open>firstNonWhitespaceOffset(line)\<close>, the offset of the first character not matched by
  a leading-whitespace run; \<open>isFirstLine(position)\<close> and \<open>isLastLine(position)\<close>.
\<close>

definition getLineCount :: "buffer \<Rightarrow> nat" where
  "getLineCount buf = length buf"

definition readLineAt :: "buffer \<Rightarrow> nat \<Rightarrow> error + jsstring" where
  "readLineAt buf ln = (if ln < length buf then Inr (buf ! ln) else Inl LineOutOfRange)"

definition getLineAt :: "buffer \<Rightarrow> nat \<Rightarrow> error + TextLine" where
  "getLineAt buf ln =
     (if ln < length buf
      then Inr \<lparr>lineText = buf ! ln, lineNumber = ln,
                firstNonWhitespaceCharacterIndex = length (takeWhile jsWhiteSpace (buf ! ln))\<rparr>
      else Inl LineOutOfRange)"

definition isFirstLine :: "Position \<Rightarrow> bool" where
  "isFirstLine pos \<longleftrightarrow> line pos = 0"

definition isLastLine :: "buffer \<Rightarrow> Position \<Rightarrow> bool" where
  "isLastLine buf pos \<longleftrightarrow> int (line pos) = int (getLineCount buf) - 1"

subsection \<open>Line length and the single-position derivations\<close>

text \<open>
  \<open>getLineLength\<close>: the \<open>switch\<close> on the options comes first, the line is read inside the
  two cases, and the default case throws.
\<close>

definition getLineLength :: "buffer \<Rightarrow> nat \<Rightarrow> PositionOptions option \<Rightarrow> error + nat" where
  "getLineLength buf ln options =
     (if options = Some CharacterWiseExclusive then
        (case readLineAt buf ln of
           Inl e \<Rightarrow> Inl e
         | Inr s \<Rightarrow> (let len = length s in Inr (if len > 0 then len - 1 else len)))
      else if options = Some CharacterWiseInclusive then
        (case readLineAt buf ln of
           Inl e \<Rightarrow> Inl e
         | Inr s \<Rightarrow> Inr (length s))
      else Inl UnhandledPositionOptions)"

definition isLineBeginning :: "Position \<Rightarrow> bool" where
  "isLineBeginning p \<longleftrightarrow> character p = 0"

definition isLineEnd :: "buffer \<Rightarrow> Position \<Rightarrow> error + bool" where
  "isLineEnd buf p =
     (case getLineLength buf (line p) (positionOptions p) of
        Inl e \<Rightarrow> Inl e
      | Inr n \<Rightarrow> Inr (character p = n))"

text \<open>
  A JavaScript number is an IEEE double. Up to \<open>2 ^ 53\<close> every natural number is a double
  and \<open>n + 1\<close> and \<open>n - 1\<close> are exact. From \<open>2 ^ 53\<close> to \<open>2 ^ 54\<close> the doubles are the even
  numbers, so \<open>n + 1\<close> and \<open>n - 1\<close> lie half way between two doubles and are rounded to the
  one whose significand \<open>n div 2\<close> (or its neighbour's) is even; from \<open>2 ^ 54\<close> on the
  doubles are at least 4 apart and \<open>n + 1\<close> and \<open>n - 1\<close> are rounded back to \<open>n\<close>.
  \<open>jsPlusOne\<close> and \<open>jsMinusOne\<close> are \<open>n + 1\<close> and \<open>n - 1\<close> (for \<open>n > 0\<close>) of a double \<open>n\<close>.
  They are used for the character of a position, which nothing bounds. Line numbers are
  checked against the document where they are used, and the lengths of strings are below
  \<open>2 ^ 53\<close>, so the arithmetic on them is exact.
\<close>

definition jsPlusOne :: "nat \<Rightarrow> nat" where
  "jsPlusOne n =
     (if n < 2 ^ 53 then n + 1
      else if n < 2 ^ 54 then (if even (n div 2) then n else n + 2)
      else n)"

definition jsMinusOne :: "nat \<Rightarrow> nat" where
  "jsMinusOne n =
     (if n \<le> 2 ^ 53 then n - 1
      else if n < 2 ^ 54 then (if even (n div 2) then n else n - 2)
      else n)"

definition getLeft :: "Position \<Rightarrow> Position" where
  "getLeft p =
     (if \<not> isLineBeginning p
      then \<lparr>line = line p, character = jsMinusOne (character p),
            positionOptions = positionOptions p\<rparr>
      else p)"

definition getRight :: "buffer \<Rightarrow> Position \<Rightarrow> error + Position" where
  "getRight buf p =
     (case isLineEnd buf p of
        Inl e \<Rightarrow> Inl e
      | Inr atEnd \<Rightarrow>
          if \<not> atEnd
          then Inr \<lparr>line = line p, character = jsPlusOne (character p),
                     positionOptions = positionOptions p\<rparr>
          else Inr p)"

definition getLineBegin :: "Position \<Rightarrow> Position" where
  "getLineBegin p = \<lparr>line = line p, character = 0, positionOptions = positionOptions p\<rparr>"

definition getLineEnd :: "buffer \<Rightarrow> Position \<Rightarrow> error + Position" where
  "getLineEnd buf p =
     (case getLineLength buf (line p) (positionOptions p) of
        Inl e \<Rightarrow> Inl e
      | Inr n \<Rightarrow> Inr \<lparr>line = line p, character = n, positionOptions = positionOptions p\<rparr>)"

definition getDocumentBegin :: "Position \<Rightarrow> Position" where
  "getDocumentBegin p = \<lparr>line = 0, character = 0, positionOptions = positionOptions p\<rparr>"

definition getDocumentEnd :: "buffer \<Rightarrow> Position \<Rightarrow> error + Position" where
  "getDocumentEnd buf p =
     (let lineCount = getLineCount buf;
          ln = (if lineCount > 0 then lineCount - 1 else 0)
      in case getLineLength buf ln (positionOptions p) of
           Inl e \<Rightarrow> Inl e
         | Inr c \<Rightarrow> Inr \<lparr>line = ln, character = c, positionOptions = positionOptions p\<rparr>)"

definition getDown :: "buffer \<Rightarrow> Position \<Rightarrow> nat \<Rightarrow> error + Position" where
  "getDown buf p desiredColumn =
     (case getDocumentEnd buf p of
        Inl e \<Rightarrow> Inl e
      | Inr de \<Rightarrow>
          if line de \<noteq> line p then
            (let nextLine = line p + 1
             in case getLineLength buf nextLine (positionOptions p) of
                  Inl e \<Rightarrow> Inl e
                | Inr nextLineLength \<Rightarrow>
                    Inr \<lparr>line = nextLine, character = min nextLineLength desiredColumn,
                         positionOptions = positionOptions p\<rparr>)
          else Inr p)"

definition getUp :: "buffer \<Rightarrow> Position \<Rightarrow> nat \<Rightarrow> error + Position" where
  "getUp buf p desiredColumn =
     (if line (getDocumentBegin p) \<noteq> line p then
        (let prevLine = line p - 1
         in case getLineLength buf prevLine (positionOptions p) of
              Inl e \<Rightarrow> Inl e
            | Inr prevLineLength \<Rightarrow>
                Inr \<lparr>line = prevLine, character = min prevLineLength desiredColumn,
                     positionOptions = positionOptions p\<rparr>)
      else Inr p)"

text \<open>
  \<open>isValid\<close>: the line check, then the character check, which computes the line length,
  then the check of the options.
\<close>

definition isValid :: "buffer \<Rightarrow> Position \<Rightarrow> error + bool" where
  "isValid buf p =
     (let lineCount = getLineCount buf
      in if line p > lineCount then Inr False
         else case getLineLength buf (line p) (positionOptions p) of
                Inl e \<Rightarrow> Inl e
              | Inr charCount \<Rightarrow>
                  if character p > charCount then Inr False
                  else if positionOptions p = None then Inr False
                  else Inr True)"

subsection \<open>Paragraph motions\<close>

text \<open>
  \<open>getCurrentParagraphEnd\<close> and \<open>getCurrentParagraphBeginning\<close> each run two \<open>while\<close>
  loops on a local \<open>pos\<close>; each loop is a recursive function here, in the order of the
  source. The loops end: the line grows up to the last line, or shrinks down to 0.
\<close>

function paragraphEndPhase1 :: "buffer \<Rightarrow> Position \<Rightarrow> error + Position" where
  "paragraphEndPhase1 buf pos =
     (case getLineAt buf (line pos) of
        Inl e \<Rightarrow> Inl e
      | Inr ln \<Rightarrow>
          if lineText ln = [] \<and> \<not> isLastLine buf pos then
            (case getDown buf pos 0 of
               Inl e \<Rightarrow> Inl e
             | Inr pos' \<Rightarrow> paragraphEndPhase1 buf pos')
          else Inr pos)"
  by pat_completeness auto
termination
  by (relation "measure (\<lambda>(buf, pos). length buf - line pos)")
     (auto simp: getLineAt_def isLastLine_def getLineCount_def getDown_def getDocumentEnd_def
        Let_def split: if_splits sum.splits)

function paragraphEndPhase2 :: "buffer \<Rightarrow> Position \<Rightarrow> error + Position" where
  "paragraphEndPhase2 buf pos =
     (case getLineAt buf (line pos) of
        Inl e \<Rightarrow> Inl e
      | Inr ln \<Rightarrow>
          if lineText ln \<noteq> [] \<and> int (line pos) < int (getLineCount buf) - 1 then
            (case getDown buf pos 0 of
               Inl e \<Rightarrow> Inl e
             | Inr pos' \<Rightarrow> paragraphEndPhase2 buf pos')
          else Inr pos)"
  by pat_completeness auto
termination
  by (relation "measure (\<lambda>(buf, pos). length buf - line pos)")
     (auto simp: getLineAt_def getLineCount_def getDown_def getDocumentEnd_def
        Let_def split: if_splits sum.splits)

declare paragraphEndPhase1.simps [simp del] paragraphEndPhase2.simps [simp del]

definition getCurrentParagraphEnd :: "buffer \<Rightarrow> Position \<Rightarrow> error + Position" where
  "getCurrentParagraphEnd buf p =
     (case paragraphEndPhase1 buf p of
        Inl e \<Rightarrow> Inl e
      | Inr pos1 \<Rightarrow>
          (case paragraphEndPhase2 buf pos1 of
             Inl e \<Rightarrow> Inl e
           | Inr pos2 \<Rightarrow> getLineEnd buf pos2))"

function paragraphBeginPhase1 :: "buffer \<Rightarrow> Position \<Rightarrow> error + Position" where
  "paragraphBeginPhase1 buf pos =
     (case getLineAt buf (line pos) of
        Inl e \<Rightarrow> Inl e
      | Inr ln \<Rightarrow>
          if lineText ln = [] \<and> \<not> isFirstLine pos then
            (case getUp buf pos 0 of
               Inl e \<Rightarrow> Inl e
             | Inr pos' \<Rightarrow> paragraphBeginPhase1 buf pos')
          else Inr pos)"
  by pat_completeness auto
termination
  by (relation "measure (\<lambda>(buf, pos). line pos)")
     (auto simp: isFirstLine_def getUp_def getDocumentBegin_def Let_def
        split: if_splits sum.splits)

function paragraphBeginPhase2 :: "buffer \<Rightarrow> Position \<Rightarrow> error + Position" where
  "paragraphBeginPhase2 buf pos =
     (if line pos > 0 then
        (case getLineAt buf (line pos) of
           Inl e \<Rightarrow> Inl e
         | Inr ln \<Rightarrow>
             if lineText ln \<noteq> [] then
               (case getUp buf pos 0 of
                  Inl e \<Rightarrow> Inl e
                | Inr pos' \<Rightarrow> paragraphBeginPhase2 buf pos')
             else Inr pos)
      else Inr pos)"
  by pat_completeness auto
termination
  by (relation "measure (\<lambda>(buf, pos). line pos)")
     (auto simp: getUp_def getDocumentBegin_def Let_def split: if_splits sum.splits)

declare paragraphBeginPhase1.simps [simp del] paragraphBeginPhase2.simps [simp del]

definition getCurrentParagraphBeginning :: "buffer \<Rightarrow> Position \<Rightarrow> error + Position" where
  "getCurrentParagraphBeginning buf p =
     (case paragraphBeginPhase1 buf p of
        Inl e \<Rightarrow> Inl e
      | Inr pos1 \<Rightarrow>
          (case paragraphBeginPhase2 buf pos1 of
             Inl e \<Rightarrow> Inl e
           | Inr pos2 \<Rightarrow> Inr (getLineBegin pos2)))"

subsection \<open>The word regular expressions\<close>

text \<open>
  \<open>NonWordCharacters\<close> is the string \<^verbatim>\<open>/\()"':,.;<>~!@#$%^&*|+=[]{}`?-\<close>, written as its
  code units; \<open>NonBigWordCharacters\<close> is the empty string.
\<close>

definition NonWordCharacters :: jsstring where
  "NonWordCharacters =
     [47, 92, 40, 41, 34, 39, 58, 44, 46, 59, 60, 62, 126, 33, 64, 35, 36, 37, 94, 38, 42,
      124, 43, 61, 91, 93, 123, 125, 96, 63, 45]"

definition NonBigWordCharacters :: jsstring where
  "NonBigWordCharacters = []"

text \<open>
  \<open>makeWordRegex(characterSet)\<close> joins three alternatives with \<open>|\<close> under the flag \<open>g\<close>:
  \<^verbatim>\<open>(^[\t ]*$)\<close>, then \<^verbatim>\<open>([^\sSET]+)\<close>, then \<^verbatim>\<open>[SET]+\<close>, where \<open>SET\<close> is the escaped
  character set (the hyphen comes last, so both classes hold exactly the set's characters,
  and \<^verbatim>\<open>[]+\<close> of the empty set matches nothing). \<open>matchAt\<close> is the length of the match that
  starts at index \<open>i\<close>, if there is one: the first alternative needs \<open>i = 0\<close> and a line of
  tabs and spaces only, and then matches the whole line, also when the line is empty; the
  other two match a longest run of at least one character.
\<close>

definition matchAt :: "jsstring \<Rightarrow> jsstring \<Rightarrow> nat \<Rightarrow> nat option" where
  "matchAt characterSet s i =
     (if i = 0 \<and> list_all (\<lambda>c. c = 9 \<or> c = 32) s then Some (length s)
      else
        let w = length (takeWhile (\<lambda>c. \<not> jsWhiteSpace c \<and> c \<notin> set characterSet) (drop i s))
        in if w > 0 then Some w
           else
             let q = length (takeWhile (\<lambda>c. c \<in> set characterSet) (drop i s))
             in if q > 0 then Some q else None)"

text \<open>
  \<open>regex.exec(s)\<close> of a global regular expression: the search starts at \<open>lastIndex\<close> and
  tries each index up to the length of \<open>s\<close>; a match gives its index and its length, and
  sets \<open>lastIndex\<close> to the end of the match; no match gives \<open>null\<close>.
\<close>

function regexExec :: "jsstring \<Rightarrow> jsstring \<Rightarrow> nat \<Rightarrow> (nat \<times> nat) option" where
  "regexExec characterSet s lastIndex =
     (if lastIndex > length s then None
      else case matchAt characterSet s lastIndex of
             Some len \<Rightarrow> Some (lastIndex, len)
           | None \<Rightarrow> regexExec characterSet s (lastIndex + 1))"
  by pat_completeness auto
termination
  by (relation "measure (\<lambda>(characterSet, s, lastIndex). Suc (length s) - lastIndex)") auto

declare regexExec.simps [simp del]

text \<open>
  The loop \<open>while (true) { result = regex.exec(text); if (result === null) break;
  positions.push(...) }\<close>, which the three word motions share; \<open>push\<close> is what a motion
  pushes for a match, from its index and its length. The loop has no bound of its own, so
  it is a partial function: \<open>None\<close> is a loop that never ends.
\<close>

partial_function (option) execLoop ::
  "(nat \<Rightarrow> nat \<Rightarrow> 'a) \<Rightarrow> jsstring \<Rightarrow> jsstring \<Rightarrow> nat \<Rightarrow> 'a list \<Rightarrow> 'a list option" where
  "execLoop push characterSet s lastIndex positions =
     (case regexExec characterSet s lastIndex of
        None \<Rightarrow> Some positions
      | Some (index, len) \<Rightarrow>
          execLoop push characterSet s (index + len) (positions @ [push index len]))"

subsection \<open>Word motions\<close>

text \<open>
  The result of a word motion is \<open>None\<close> when its loop never ends, \<open>Some (Inl e)\<close> when
  it throws and \<open>Some (Inr p)\<close> when it returns the position \<open>p\<close>.
\<close>

text \<open>
  The start of \<open>getWordLeftWithRegex\<close>: the working position, the line to search and the
  character to search from.
\<close>

definition wordLeftStart :: "buffer \<Rightarrow> Position \<Rightarrow> error + (Position \<times> TextLine \<times> nat)" where
  "wordLeftStart buf p =
     (case getLineAt buf (line p) of
        Inl e \<Rightarrow> Inl e
      | Inr currentLine \<Rightarrow>
          if \<not> isFirstLine p \<and> character p \<le> firstNonWhitespaceCharacterIndex currentLine then
            (let workingPosition =
                   \<lparr>line = line p - 1, character = character p,
                    positionOptions = positionOptions p\<rparr>
             in case getLineAt buf (line workingPosition) of
                  Inl e \<Rightarrow> Inl e
                | Inr prevLine \<Rightarrow>
                    (case getLineEnd buf workingPosition of
                       Inl e \<Rightarrow> Inl e
                     | Inr le \<Rightarrow> Inr (workingPosition, prevLine, character le + 1)))
          else
            Inr (\<lparr>line = line p, character = character p, positionOptions = positionOptions p\<rparr>,
                 currentLine, character p))"

definition getWordLeftWithRegex :: "jsstring \<Rightarrow> buffer \<Rightarrow> Position \<Rightarrow> (error + Position) option" where
  "getWordLeftWithRegex characterSet buf p =
     (case wordLeftStart buf p of
        Inl e \<Rightarrow> Some (Inl e)
      | Inr (workingPosition, currentLine, currentCharacter) \<Rightarrow>
          (case execLoop (\<lambda>index len. index) characterSet (lineText currentLine) 0 [] of
             None \<Rightarrow> None
           | Some positions \<Rightarrow>
               (case find (\<lambda>position. currentCharacter > position) (rev positions) of
                  Some position \<Rightarrow>
                    Some (Inr \<lparr>line = line workingPosition, character = position,
                                positionOptions = positionOptions workingPosition\<rparr>)
                | None \<Rightarrow>
                    if line p = 0 then Some (Inr (getLineBegin p))
                    else Some (getLineEnd buf
                           \<lparr>line = line p - 1, character = 0,
                            positionOptions = positionOptions p\<rparr>))))"

text \<open>
  The test \<open>!TextEditor.isLastLine(this) && this.character >= this.getLineEnd().character\<close>
  of \<open>getWordRightWithRegex\<close> and \<open>getCurrentWordEndWithRegex\<close>; the line end is computed
  only when the line is not the last one.
\<close>

definition pastLineEndNotLast :: "buffer \<Rightarrow> Position \<Rightarrow> error + bool" where
  "pastLineEndNotLast buf p =
     (if \<not> isLastLine buf p then
        (case getLineEnd buf p of
           Inl e \<Rightarrow> Inl e
         | Inr le \<Rightarrow> Inr (character p \<ge> character le))
      else Inr False)"

text \<open>
  The two lines under the comment \<open>go to next line\<close> of \<open>getWordRightWithRegex\<close>.
\<close>

definition goToNextLine :: "buffer \<Rightarrow> Position \<Rightarrow> error + Position" where
  "goToNextLine buf p =
     (case getLineAt buf (line p + 1) of
        Inl e \<Rightarrow> Inl e
      | Inr ln \<Rightarrow>
          Inr \<lparr>line = lineNumber ln, character = firstNonWhitespaceCharacterIndex ln,
               positionOptions = positionOptions p\<rparr>)"

definition getWordRightWithRegex :: "jsstring \<Rightarrow> buffer \<Rightarrow> Position \<Rightarrow> (error + Position) option" where
  "getWordRightWithRegex characterSet buf p =
     (case pastLineEndNotLast buf p of
        Inl e \<Rightarrow> Some (Inl e)
      | Inr True \<Rightarrow> Some (goToNextLine buf p)
      | Inr False \<Rightarrow>
          (case getLineAt buf (line p) of
             Inl e \<Rightarrow> Some (Inl e)
           | Inr currentLine \<Rightarrow>
               (case execLoop (\<lambda>index len. index) characterSet (lineText currentLine) 0 [] of
                  None \<Rightarrow> None
                | Some positions \<Rightarrow>
                    (case find (\<lambda>position. character p < position) positions of
                       Some position \<Rightarrow>
                         Some (Inr \<lparr>line = line p, character = position,
                                     positionOptions = positionOptions p\<rparr>)
                     | None \<Rightarrow>
                         (case getDocumentEnd buf p of
                            Inl e \<Rightarrow> Some (Inl e)
                          | Inr de \<Rightarrow>
                              if line p = line de then Some (getLineEnd buf p)
                              else Some (goToNextLine buf p))))))"

text \<open>
  \<open>getCurrentWordEndWithRegex\<close> pushes \<open>result.index + result[0].length - 1\<close>, which is
  \<open>-1\<close> for an empty match, so its positions are integers; a position that the \<open>for\<close> loop
  returns is greater than the current character.
\<close>

definition wordEndStart :: "buffer \<Rightarrow> Position \<Rightarrow> error + (Position \<times> TextLine \<times> nat)" where
  "wordEndStart buf p =
     (case getLineAt buf (line p) of
        Inl e \<Rightarrow> Inl e
      | Inr currentLine \<Rightarrow>
          (case pastLineEndNotLast buf p of
             Inl e \<Rightarrow> Inl e
           | Inr True \<Rightarrow>
               (let workingPosition =
                      \<lparr>line = line p + 1, character = character p,
                       positionOptions = positionOptions p\<rparr>
                in case getLineAt buf (line workingPosition) of
                     Inl e \<Rightarrow> Inl e
                   | Inr nextLine \<Rightarrow> Inr (workingPosition, nextLine, 0))
           | Inr False \<Rightarrow>
               Inr (\<lparr>line = line p, character = character p,
                     positionOptions = positionOptions p\<rparr>, currentLine, character p)))"

definition getCurrentWordEndWithRegex :: "jsstring \<Rightarrow> buffer \<Rightarrow> Position \<Rightarrow> (error + Position) option" where
  "getCurrentWordEndWithRegex characterSet buf p =
     (case wordEndStart buf p of
        Inl e \<Rightarrow> Some (Inl e)
      | Inr (workingPosition, currentLine, currentCharacter) \<Rightarrow>
          (case execLoop (\<lambda>index len. int index + int len - 1) characterSet
                  (lineText currentLine) 0 [] of
             None \<Rightarrow> None
           | Some positions \<Rightarrow>
               (case find (\<lambda>position. int currentCharacter < position) positions of
                  Some position \<Rightarrow>
                    Some (Inr \<lparr>line = line workingPosition, character = nat position,
                                positionOptions = positionOptions workingPosition\<rparr>)
                | None \<Rightarrow> Some (getLineEnd buf p))))"

definition getWordLeft :: "buffer \<Rightarrow> Position \<Rightarrow> (error + Position) option" where
  "getWordLeft = getWordLeftWithRegex NonWordCharacters"

definition getBigWordLeft :: "buffer \<Rightarrow> Position \<Rightarrow> (error + Position) option" where
  "getBigWordLeft = getWordLeftWithRegex NonBigWordCharacters"

definition getWordRight :: "buffer \<Rightarrow> Position \<Rightarrow> (error + Position) option" where
  "getWordRight = getWordRightWithRegex NonWordCharacters"

definition getBigWordRight :: "buffer \<Rightarrow> Position \<Rightarrow> (error + Position) option" where
  "getBigWordRight = getWordRightWithRegex NonBigWordCharacters"

definition getCurrentWordEnd :: "buffer \<Rightarrow> Position \<Rightarrow> (error + Position) option" where
  "getCurrentWordEnd = getCurrentWordEndWithRegex NonWordCharacters"

definition getCurrentBigWordEnd :: "buffer \<Rightarrow> Position \<Rightarrow> (error + Position) option" where
  "getCurrentBigWordEnd = getCurrentWordEndWithRegex NonBigWordCharacters"

subsection \<open>The word motions as the specification describes them\<close>

text \<open>
  These definitions follow the words of the specification, not the source: the line
  length of a mode, the first non-blank offset of a line, and the three word motions as
  functions of the list of boundary offsets of the line that is searched. They are
  compared with the source's functions below.
\<close>

definition lineLength_spec :: "buffer \<Rightarrow> nat \<Rightarrow> PositionOptions option \<Rightarrow> nat" where
  "lineLength_spec buf ln mode =
     (if mode = Some CharacterWiseExclusive then nat (max (int (length (buf ! ln)) - 1) 0)
      else length (buf ! ln))"

definition firstNonBlank_spec :: "buffer \<Rightarrow> nat \<Rightarrow> nat" where
  "firstNonBlank_spec buf ln = length (takeWhile jsWhiteSpace (buf ! ln))"

definition nextLineStart_spec :: "buffer \<Rightarrow> Position \<Rightarrow> Position" where
  "nextLineStart_spec buf p =
     \<lparr>line = line p + 1, character = firstNonBlank_spec buf (line p + 1),
      positionOptions = positionOptions p\<rparr>"

definition pastLineEnd_spec :: "buffer \<Rightarrow> Position \<Rightarrow> bool" where
  "pastLineEnd_spec buf p \<longleftrightarrow>
     lineLength_spec buf (line p) (positionOptions p) \<le> character p \<and> line p + 1 \<noteq> length buf"

definition wordLeft_onPrevious_spec :: "buffer \<Rightarrow> Position \<Rightarrow> bool" where
  "wordLeft_onPrevious_spec buf p \<longleftrightarrow>
     character p \<le> firstNonBlank_spec buf (line p) \<and> line p \<noteq> 0"

definition wordLeft_searchLine_spec :: "buffer \<Rightarrow> Position \<Rightarrow> nat" where
  "wordLeft_searchLine_spec buf p =
     (if wordLeft_onPrevious_spec buf p then line p - 1 else line p)"

definition wordLeft_spec :: "buffer \<Rightarrow> Position \<Rightarrow> nat list \<Rightarrow> Position" where
  "wordLeft_spec buf p offsets =
     (let current =
            (if wordLeft_onPrevious_spec buf p
             then lineLength_spec buf (line p - 1) (positionOptions p) + 1
             else character p)
      in case find (\<lambda>offset. offset < current) (rev offsets) of
           Some offset \<Rightarrow>
             \<lparr>line = wordLeft_searchLine_spec buf p, character = offset,
              positionOptions = positionOptions p\<rparr>
         | None \<Rightarrow>
             if line p = 0
             then \<lparr>line = line p, character = 0, positionOptions = positionOptions p\<rparr>
             else \<lparr>line = line p - 1,
                   character = lineLength_spec buf (line p - 1) (positionOptions p),
                   positionOptions = positionOptions p\<rparr>)"

definition wordRight_spec :: "buffer \<Rightarrow> Position \<Rightarrow> nat list \<Rightarrow> Position" where
  "wordRight_spec buf p offsets =
     (if pastLineEnd_spec buf p then nextLineStart_spec buf p
      else case find (\<lambda>offset. character p < offset) offsets of
             Some offset \<Rightarrow>
               \<lparr>line = line p, character = offset, positionOptions = positionOptions p\<rparr>
           | None \<Rightarrow>
               if line p + 1 = length buf
               then \<lparr>line = line p,
                     character = lineLength_spec buf (line p) (positionOptions p),
                     positionOptions = positionOptions p\<rparr>
               else nextLineStart_spec buf p)"

definition currentWordEnd_searchLine_spec :: "buffer \<Rightarrow> Position \<Rightarrow> nat" where
  "currentWordEnd_searchLine_spec buf p =
     (if pastLineEnd_spec buf p then line p + 1 else line p)"

definition currentWordEnd_spec :: "buffer \<Rightarrow> Position \<Rightarrow> int list \<Rightarrow> Position" where
  "currentWordEnd_spec buf p offsets =
     (let baseline = (if pastLineEnd_spec buf p then 0 else character p)
      in case find (\<lambda>offset. int baseline < offset) offsets of
           Some offset \<Rightarrow>
             \<lparr>line = currentWordEnd_searchLine_spec buf p, character = nat offset,
              positionOptions = positionOptions p\<rparr>
         | None \<Rightarrow>
             \<lparr>line = line p, character = lineLength_spec buf (line p) (positionOptions p),
              positionOptions = positionOptions p\<rparr>)"

section \<open>Properties\<close>

subsection \<open>Line length\<close>

lemma getLineLength_in_range:
  "ln < length buf \<Longrightarrow>
     getLineLength buf ln (Some CharacterWiseExclusive) = Inr (length (buf ! ln) - 1)
     \<and> getLineLength buf ln (Some CharacterWiseInclusive) = Inr (length (buf ! ln))"
  by (simp add: getLineLength_def readLineAt_def Let_def CharacterWiseExclusive_def
        CharacterWiseInclusive_def)

text \<open>
  Claim C9. With options that are neither of the two enum members (\<open>null\<close> or any other
  number), \<open>getLineLength\<close> throws, whatever the line, and before the line is read. With
  \<open>CharacterWiseExclusive\<close> it returns \<open>max (len - 1) 0\<close> and with \<open>CharacterWiseInclusive\<close>
  it returns \<open>len\<close>, where \<open>len\<close> is the length of the text of the line, a line of the
  document.
\<close>

theorem getLineLength_by_mode:
  "(options \<noteq> Some CharacterWiseExclusive \<and> options \<noteq> Some CharacterWiseInclusive
      \<longrightarrow> getLineLength buf ln options = Inl UnhandledPositionOptions)
   \<and> (ln < length buf \<longrightarrow>
        (\<exists>n. getLineLength buf ln (Some CharacterWiseExclusive) = Inr n
             \<and> int n = max (int (length (buf ! ln)) - 1) 0)
        \<and> getLineLength buf ln (Some CharacterWiseInclusive) = Inr (length (buf ! ln)))"
  by (cases "buf ! ln")
     (auto simp: getLineLength_def readLineAt_def Let_def CharacterWiseExclusive_def
        CharacterWiseInclusive_def)

theorem getLineLength_by_mode_witness:
  "getLineLength [js ''abc'', []] 0 None = Inl UnhandledPositionOptions
   \<and> getLineLength [js ''abc'', []] 0 (Some 7) = Inl UnhandledPositionOptions
   \<and> getLineLength [js ''abc'', []] 0 (Some CharacterWiseExclusive) = Inr 2
   \<and> getLineLength [js ''abc'', []] 1 (Some CharacterWiseExclusive) = Inr 0
   \<and> getLineLength [js ''abc'', []] 0 (Some CharacterWiseInclusive) = Inr 3"
  using getLineLength_by_mode [of None "[js ''abc'', []]" 0]
    getLineLength_by_mode [of "Some 7" "[js ''abc'', []]" 0]
    getLineLength_by_mode [of None "[js ''abc'', []]" 1]
  by (simp add: js_def CharacterWiseExclusive_def CharacterWiseInclusive_def)

subsection \<open>Vertical motion\<close>

text \<open>
  Claim C7. For a position on a line of the document, with one of the two caret modes:
  \<open>getDown\<close> returns the position unchanged on the last line, and otherwise the position
  one line below, whose character is the minimum of that line's length (in the mode) and
  the desired column; \<open>getUp\<close> likewise, with the first line and the line above. The
  resulting line is again a line of the document. In the mode \<open>CharacterWiseInclusive\<close>,
  with the lines \<open>abc\<close> and \<open>def\<close> and the cursor at \<open>(0, 3)\<close>, \<open>getDown(0)\<close> is \<open>(1, 0)\<close>.
\<close>

theorem getDown_getUp_one_line:
  assumes "line p < length buf"
    and "positionOptions p = Some CharacterWiseExclusive
         \<or> positionOptions p = Some CharacterWiseInclusive"
  shows "(line p = length buf - 1 \<longrightarrow> getDown buf p d = Inr p)
    \<and> (line p \<noteq> length buf - 1 \<longrightarrow>
         (\<exists>n. getLineLength buf (line p + 1) (positionOptions p) = Inr n
              \<and> getDown buf p d =
                  Inr \<lparr>line = line p + 1, character = min n d,
                       positionOptions = positionOptions p\<rparr>))
    \<and> (\<forall>q. getDown buf p d = Inr q \<longrightarrow> line q < length buf)
    \<and> (line p = 0 \<longrightarrow> getUp buf p d = Inr p)
    \<and> (line p \<noteq> 0 \<longrightarrow>
         (\<exists>n. getLineLength buf (line p - 1) (positionOptions p) = Inr n
              \<and> getUp buf p d =
                  Inr \<lparr>line = line p - 1, character = min n d,
                       positionOptions = positionOptions p\<rparr>))
    \<and> (\<forall>q. getUp buf p d = Inr q \<longrightarrow> line q < length buf)
    \<and> getDown [js ''abc'', js ''def'']
         \<lparr>line = 0, character = 3, positionOptions = Some CharacterWiseInclusive\<rparr> 0
       = Inr \<lparr>line = 1, character = 0, positionOptions = Some CharacterWiseInclusive\<rparr>"
  using assms
  by (auto simp: getDown_def getUp_def getDocumentEnd_def getDocumentBegin_def
        getLineCount_def getLineLength_def readLineAt_def Let_def
        CharacterWiseExclusive_def CharacterWiseInclusive_def)

theorem getDown_getUp_one_line_witness:
  "getDown [js ''abc'', js ''de'']
     \<lparr>line = 0, character = 3, positionOptions = Some CharacterWiseExclusive\<rparr> 5
   = Inr \<lparr>line = 1, character = 1, positionOptions = Some CharacterWiseExclusive\<rparr>
   \<and> getUp [js ''abc'', js ''de'']
     \<lparr>line = 0, character = 3, positionOptions = Some CharacterWiseExclusive\<rparr> 5
   = Inr \<lparr>line = 0, character = 3, positionOptions = Some CharacterWiseExclusive\<rparr>
   \<and> getDown [js ''abc'', js ''de'']
     \<lparr>line = 1, character = 0, positionOptions = Some CharacterWiseInclusive\<rparr> 5
   = Inr \<lparr>line = 1, character = 0, positionOptions = Some CharacterWiseInclusive\<rparr>
   \<and> getUp [js ''abc'', js ''de'']
     \<lparr>line = 1, character = 0, positionOptions = Some CharacterWiseInclusive\<rparr> 5
   = Inr \<lparr>line = 0, character = 3, positionOptions = Some CharacterWiseInclusive\<rparr>"
  using getDown_getUp_one_line [of
      "\<lparr>line = 0, character = 3, positionOptions = Some CharacterWiseExclusive\<rparr>"
      "[js ''abc'', js ''de'']" 5]
    getDown_getUp_one_line [of
      "\<lparr>line = 1, character = 0, positionOptions = Some CharacterWiseInclusive\<rparr>"
      "[js ''abc'', js ''de'']" 5]
  by (simp add: js_def getLineLength_def readLineAt_def Let_def
        CharacterWiseExclusive_def CharacterWiseInclusive_def)

subsection \<open>Left and right\<close>

text \<open>
  Below \<open>2 ^ 53\<close> the two operations on numbers are exact and undo each other.
\<close>

lemma jsPlusOne_safe: "n < 2 ^ 53 \<Longrightarrow> jsPlusOne n = n + 1 \<and> jsMinusOne (jsPlusOne n) = n"
  by (simp add: jsPlusOne_def jsMinusOne_def)

lemma jsMinusOne_safe:
  "n < 2 ^ 53 \<Longrightarrow> n \<noteq> 0 \<Longrightarrow> jsMinusOne n = n - 1 \<and> jsPlusOne (jsMinusOne n) = n"
  by (simp add: jsPlusOne_def jsMinusOne_def)

lemma jsPlusOne_pos: "0 < jsPlusOne n"
  by (simp add: jsPlusOne_def)

text \<open>
  The two round trips of claim C5, as it is written, fail. In the mode
  \<open>CharacterWiseExclusive\<close> on the line \<open>abc\<close>: the position \<open>(0, 2)\<close> is not at the line
  beginning, \<open>getRight\<close> leaves it where it is (it is at the line end) and \<open>getLeft\<close> then
  moves it to \<open>(0, 1)\<close>; the position \<open>(0, 0)\<close> is not at the line end, \<open>getLeft\<close> leaves it
  where it is and \<open>getRight\<close> then moves it to \<open>(0, 1)\<close>. And at the character \<open>2 ^ 53\<close>,
  which is \<open>9007199254740992\<close>, not at the line beginning either, \<open>getRight\<close> returns the
  same character, because \<open>2 ^ 53 + 1\<close> is rounded to \<open>2 ^ 53\<close>, and \<open>getLeft\<close> then moves to
  \<open>2 ^ 53 - 1\<close>.
\<close>

theorem left_right_swapped_counterexample:
  "\<not> isLineBeginning \<lparr>line = 0, character = 2, positionOptions = Some CharacterWiseExclusive\<rparr>
   \<and> getRight [js ''abc'']
         \<lparr>line = 0, character = 2, positionOptions = Some CharacterWiseExclusive\<rparr>
       = Inr \<lparr>line = 0, character = 2, positionOptions = Some CharacterWiseExclusive\<rparr>
   \<and> getLeft \<lparr>line = 0, character = 2, positionOptions = Some CharacterWiseExclusive\<rparr>
       \<noteq> \<lparr>line = 0, character = 2, positionOptions = Some CharacterWiseExclusive\<rparr>
   \<and> isLineEnd [js ''abc'']
         \<lparr>line = 0, character = 0, positionOptions = Some CharacterWiseExclusive\<rparr>
       = Inr False
   \<and> getRight [js ''abc'']
         (getLeft \<lparr>line = 0, character = 0, positionOptions = Some CharacterWiseExclusive\<rparr>)
       \<noteq> Inr \<lparr>line = 0, character = 0, positionOptions = Some CharacterWiseExclusive\<rparr>
   \<and> \<not> isLineBeginning
         \<lparr>line = 0, character = 9007199254740992,
          positionOptions = Some CharacterWiseExclusive\<rparr>
   \<and> getRight [js ''abc'']
         \<lparr>line = 0, character = 9007199254740992,
          positionOptions = Some CharacterWiseExclusive\<rparr>
       = Inr \<lparr>line = 0, character = 9007199254740992,
              positionOptions = Some CharacterWiseExclusive\<rparr>
   \<and> getLeft \<lparr>line = 0, character = 9007199254740992,
                positionOptions = Some CharacterWiseExclusive\<rparr>
       = \<lparr>line = 0, character = 9007199254740991,
          positionOptions = Some CharacterWiseExclusive\<rparr>"
  by (simp add: isLineBeginning_def getRight_def getLeft_def isLineEnd_def getLineLength_def
        readLineAt_def Let_def js_def jsPlusOne_def jsMinusOne_def)

text \<open>
  Claim C5, amended: the two conditions change places, and they are exact. Let the position
  \<open>p\<close> be on a line of the document, with a caret mode for which the line has a length
  \<open>n\<close>. For a character below \<open>2 ^ 53\<close> (the third part): \<open>getLeft\<close> after \<open>getRight\<close> gives \<open>p\<close>
  back exactly when \<open>p\<close> is not at the line end, or is at the line beginning; \<open>getRight\<close>
  after \<open>getLeft\<close> gives \<open>p\<close> back exactly when \<open>p\<close> is at the line beginning of a line of
  length 0, or is not at the line beginning and its character is not \<open>n + 1\<close>, the one
  character from which \<open>getLeft\<close> arrives at the line end. For every character (the first
  two parts), the same holds with the rounded sums of the numbers: a move that changes
  nothing gives \<open>p\<close> back, and the other round trips do exactly when subtracting 1 undoes
  adding 1, or adding 1 undoes subtracting 1.
\<close>

theorem left_right_inverse:
  assumes "getLineLength buf (line p) (positionOptions p) = Inr n"
  shows "((\<exists>q. getRight buf p = Inr q \<and> getLeft q = p) \<longleftrightarrow>
            (if character p = n then character p = 0 \<or> jsMinusOne (character p) = character p
             else jsMinusOne (jsPlusOne (character p)) = character p))
    \<and> (getRight buf (getLeft p) = Inr p \<longleftrightarrow>
            (if character p = 0 then n = 0
             else if jsMinusOne (character p) = n then jsMinusOne (character p) = character p
             else jsPlusOne (jsMinusOne (character p)) = character p))
    \<and> (character p < 2 ^ 53 \<longrightarrow>
          ((\<exists>q. getRight buf p = Inr q \<and> getLeft q = p) \<longleftrightarrow>
             character p \<noteq> n \<or> character p = 0)
          \<and> (getRight buf (getLeft p) = Inr p \<longleftrightarrow>
             (if character p = 0 then n = 0 else character p \<noteq> n + 1)))"
proof (intro conjI impI)
  show rl: "(\<exists>q. getRight buf p = Inr q \<and> getLeft q = p) \<longleftrightarrow>
            (if character p = n then character p = 0 \<or> jsMinusOne (character p) = character p
             else jsMinusOne (jsPlusOne (character p)) = character p)"
    using assms
    by (cases p) (auto simp: getRight_def getLeft_def isLineEnd_def isLineBeginning_def
          jsPlusOne_pos)
  show lr: "getRight buf (getLeft p) = Inr p \<longleftrightarrow>
            (if character p = 0 then n = 0
             else if jsMinusOne (character p) = n then jsMinusOne (character p) = character p
             else jsPlusOne (jsMinusOne (character p)) = character p)"
    using assms
    by (cases p) (auto simp: getRight_def getLeft_def isLineEnd_def isLineBeginning_def
          jsPlusOne_pos)
  assume safe: "character p < 2 ^ 53"
  from safe have "character p \<noteq> 0 \<Longrightarrow> jsMinusOne (character p) \<noteq> character p"
    by (simp add: jsMinusOne_def)
  with rl jsPlusOne_safe [OF safe]
  show "(\<exists>q. getRight buf p = Inr q \<and> getLeft q = p) \<longleftrightarrow>
          character p \<noteq> n \<or> character p = 0"
    by auto
  show "getRight buf (getLeft p) = Inr p \<longleftrightarrow>
          (if character p = 0 then n = 0 else character p \<noteq> n + 1)"
  proof (cases "character p = 0")
    case True
    with lr show ?thesis by simp
  next
    case False
    from jsMinusOne_safe [OF safe False] lr False show ?thesis by auto
  qed
qed

theorem left_right_inverse_witness:
  "(\<exists>q. getRight [js ''abc'']
          \<lparr>line = 0, character = 1, positionOptions = Some CharacterWiseExclusive\<rparr> = Inr q
       \<and> getLeft q = \<lparr>line = 0, character = 1, positionOptions = Some CharacterWiseExclusive\<rparr>)
   \<and> getRight [js ''abc'']
         (getLeft \<lparr>line = 0, character = 1, positionOptions = Some CharacterWiseExclusive\<rparr>)
       = Inr \<lparr>line = 0, character = 1, positionOptions = Some CharacterWiseExclusive\<rparr>
   \<and> getRight [js ''abc'']
         (getLeft \<lparr>line = 0, character = 3, positionOptions = Some CharacterWiseExclusive\<rparr>)
       \<noteq> Inr \<lparr>line = 0, character = 3, positionOptions = Some CharacterWiseExclusive\<rparr>
   \<and> getRight [js ''abc'']
         (getLeft \<lparr>line = 0, character = 4, positionOptions = Some CharacterWiseExclusive\<rparr>)
       = Inr \<lparr>line = 0, character = 4, positionOptions = Some CharacterWiseExclusive\<rparr>"
proof -
  have n: "getLineLength [js ''abc''] 0 (Some CharacterWiseExclusive) = Inr 2"
    by (simp add: getLineLength_def readLineAt_def Let_def js_def)
  from left_right_inverse [of "[js ''abc'']"
      "\<lparr>line = 0, character = 1, positionOptions = Some CharacterWiseExclusive\<rparr>" 2]
    left_right_inverse [of "[js ''abc'']"
      "\<lparr>line = 0, character = 3, positionOptions = Some CharacterWiseExclusive\<rparr>" 2]
    left_right_inverse [of "[js ''abc'']"
      "\<lparr>line = 0, character = 4, positionOptions = Some CharacterWiseExclusive\<rparr>" 2]
    n
  show ?thesis by (simp add: jsPlusOne_def jsMinusOne_def)
qed

subsection \<open>Validity\<close>

text \<open>
  Claim C8. On the one-line document \<open>abc\<close>, \<open>isValid\<close> of the position \<open>(0, 0)\<close> whose
  options are \<open>null\<close> does not return \<open>false\<close>: the character check comes before the check
  of the options and computes the line length, which throws.
\<close>

theorem isValid_unset_mode_throws:
  "isValid [js ''abc''] \<lparr>line = 0, character = 0, positionOptions = None\<rparr>
   = Inl UnhandledPositionOptions"
  by (simp add: isValid_def getLineCount_def getLineLength_def)

text \<open>
  A position whose line is the line count passes the line check; the line length is then
  asked of a line that the document does not have, so \<open>isValid\<close> does not return \<open>true\<close>.
\<close>

lemma isValid_line_count_fails:
  "line p = getLineCount buf \<Longrightarrow> isValid buf p \<noteq> Inr True"
  by (simp add: isValid_def getLineCount_def getLineLength_def readLineAt_def)

subsection \<open>Paragraph motions: where the loops stop\<close>

lemma getDown_line:
  "getDown buf p d = Inr q \<Longrightarrow>
     positionOptions q = positionOptions p \<and> line p \<le> line q \<and> line q \<le> line p + 1"
  by (auto simp: getDown_def Let_def split: sum.splits if_splits)

lemma getUp_line:
  "getUp buf p d = Inr q \<Longrightarrow>
     positionOptions q = positionOptions p \<and> line q \<le> line p \<and> line p \<le> line q + 1"
  by (auto simp: getUp_def Let_def split: sum.splits if_splits)

lemma getDown_in_range:
  "getDown buf p d = Inr q \<Longrightarrow> line p < length buf \<Longrightarrow> line q < length buf"
  by (auto simp: getDown_def getDocumentEnd_def getLineCount_def getLineLength_def
        readLineAt_def Let_def split: sum.splits if_splits)

lemma paragraphEndPhase1_result:
  "paragraphEndPhase1 buf p = Inr q \<Longrightarrow>
     line q < length buf \<and> line p \<le> line q \<and> positionOptions q = positionOptions p
     \<and> (buf ! line q \<noteq> [] \<or> isLastLine buf q)"
proof (induction buf p rule: paragraphEndPhase1.induct)
  case (1 buf pos)
  note e = "1.prems"(1) [unfolded paragraphEndPhase1.simps [of buf pos]]
  from e obtain ln where ln: "getLineAt buf (line pos) = Inr ln"
    by (auto split: sum.splits)
  then have rng: "line pos < length buf" and lt: "lineText ln = buf ! line pos"
    by (auto simp: getLineAt_def split: if_splits)
  show ?case
  proof (cases "lineText ln = [] \<and> \<not> isLastLine buf pos")
    case True
    with e ln obtain pos' where d: "getDown buf pos 0 = Inr pos'"
      and r: "paragraphEndPhase1 buf pos' = Inr q"
      by (auto split: sum.splits)
    from "1.IH" [OF ln True d r] getDown_line [OF d] show ?thesis by simp
  next
    case False
    with e ln have "q = pos"
      by (auto split: sum.splits)
    with False rng lt show ?thesis by auto
  qed
qed

lemma paragraphEndPhase2_result:
  "paragraphEndPhase2 buf p = Inr q \<Longrightarrow>
     line q < length buf \<and> line p \<le> line q \<and> positionOptions q = positionOptions p
     \<and> (buf ! line q = [] \<or> isLastLine buf q)"
proof (induction buf p rule: paragraphEndPhase2.induct)
  case (1 buf pos)
  note e = "1.prems"(1) [unfolded paragraphEndPhase2.simps [of buf pos]]
  from e obtain ln where ln: "getLineAt buf (line pos) = Inr ln"
    by (auto split: sum.splits)
  then have rng: "line pos < length buf" and lt: "lineText ln = buf ! line pos"
    by (auto simp: getLineAt_def split: if_splits)
  show ?case
  proof (cases "lineText ln \<noteq> [] \<and> int (line pos) < int (getLineCount buf) - 1")
    case True
    with e ln obtain pos' where d: "getDown buf pos 0 = Inr pos'"
      and r: "paragraphEndPhase2 buf pos' = Inr q"
      by (auto split: sum.splits)
    from "1.IH" [OF ln True d r] getDown_line [OF d] show ?thesis by simp
  next
    case False
    with e ln have "q = pos"
      by (auto split: sum.splits)
    with False rng lt show ?thesis by (auto simp: isLastLine_def getLineCount_def)
  qed
qed

lemma paragraphBeginPhase1_result:
  "paragraphBeginPhase1 buf p = Inr q \<Longrightarrow>
     line q < length buf \<and> line q \<le> line p \<and> positionOptions q = positionOptions p
     \<and> (buf ! line q \<noteq> [] \<or> line q = 0)"
proof (induction buf p rule: paragraphBeginPhase1.induct)
  case (1 buf pos)
  note e = "1.prems"(1) [unfolded paragraphBeginPhase1.simps [of buf pos]]
  from e obtain ln where ln: "getLineAt buf (line pos) = Inr ln"
    by (auto split: sum.splits)
  then have rng: "line pos < length buf" and lt: "lineText ln = buf ! line pos"
    by (auto simp: getLineAt_def split: if_splits)
  show ?case
  proof (cases "lineText ln = [] \<and> \<not> isFirstLine pos")
    case True
    with e ln obtain pos' where d: "getUp buf pos 0 = Inr pos'"
      and r: "paragraphBeginPhase1 buf pos' = Inr q"
      by (auto split: sum.splits)
    from "1.IH" [OF ln True d r] getUp_line [OF d] show ?thesis by simp
  next
    case False
    with e ln have "q = pos"
      by (auto split: sum.splits)
    with False rng lt show ?thesis by (auto simp: isFirstLine_def)
  qed
qed

lemma paragraphBeginPhase2_result:
  "paragraphBeginPhase2 buf p = Inr q \<Longrightarrow> line p < length buf \<Longrightarrow>
     line q < length buf \<and> line q \<le> line p \<and> positionOptions q = positionOptions p
     \<and> (buf ! line q = [] \<or> line q = 0)"
proof (induction buf p rule: paragraphBeginPhase2.induct)
  case (1 buf pos)
  note e = "1.prems"(1) [unfolded paragraphBeginPhase2.simps [of buf pos]]
  show ?case
  proof (cases "line pos > 0")
    case pos: True
    with e obtain ln where ln: "getLineAt buf (line pos) = Inr ln"
      by (auto split: sum.splits)
    then have lt: "lineText ln = buf ! line pos"
      by (auto simp: getLineAt_def split: if_splits)
    show ?thesis
    proof (cases "lineText ln \<noteq> []")
      case True
      with e ln pos obtain pos' where d: "getUp buf pos 0 = Inr pos'"
        and r: "paragraphBeginPhase2 buf pos' = Inr q"
        by (auto split: sum.splits)
      from getUp_line [OF d] "1.prems"(2) have "line pos' < length buf" by simp
      from "1.IH" [OF pos ln True d r this] getUp_line [OF d] show ?thesis by simp
    next
      case False
      with e ln pos have "q = pos"
        by (auto split: sum.splits)
      with False "1.prems"(2) lt show ?thesis by auto
    qed
  next
    case False
    with e have "q = pos"
      by auto
    with False "1.prems"(2) show ?thesis by auto
  qed
qed


lemma getLineEnd_result:
  "getLineEnd buf p = Inr q \<Longrightarrow>
     line q = line p \<and> positionOptions q = positionOptions p
     \<and> getLineLength buf (line p) (positionOptions p) = Inr (character q)"
  by (auto simp: getLineEnd_def split: sum.splits)

lemma getCurrentParagraphEnd_result:
  assumes "getCurrentParagraphEnd buf p = Inr q"
  shows "line q < length buf \<and> line p \<le> line q \<and> positionOptions q = positionOptions p
     \<and> (buf ! line q = [] \<or> isLastLine buf q)
     \<and> getLineEnd buf q = Inr q"
proof -
  from assms obtain p1 p2 where p1: "paragraphEndPhase1 buf p = Inr p1"
    and p2: "paragraphEndPhase2 buf p1 = Inr p2" and le: "getLineEnd buf p2 = Inr q"
    by (auto simp: getCurrentParagraphEnd_def split: sum.splits)
  from getLineEnd_result [OF le] have "getLineEnd buf q = Inr q"
    by (cases q) (simp add: getLineEnd_def)
  with paragraphEndPhase1_result [OF p1] paragraphEndPhase2_result [OF p2]
    getLineEnd_result [OF le]
  show ?thesis by (simp add: isLastLine_def)
qed

lemma getCurrentParagraphBeginning_result:
  assumes "getCurrentParagraphBeginning buf p = Inr q"
  shows "line q < length buf \<and> line q \<le> line p \<and> positionOptions q = positionOptions p
     \<and> (buf ! line q = [] \<or> line q = 0) \<and> character q = 0"
proof -
  from assms obtain p1 p2 where p1: "paragraphBeginPhase1 buf p = Inr p1"
    and p2: "paragraphBeginPhase2 buf p1 = Inr p2" and q: "q = getLineBegin p2"
    by (auto simp: getCurrentParagraphBeginning_def split: sum.splits)
  from paragraphBeginPhase1_result [OF p1] have "line p1 < length buf" by simp
  with paragraphBeginPhase1_result [OF p1] paragraphBeginPhase2_result [OF p2] q
  show ?thesis by (simp add: getLineBegin_def)
qed

lemma paragraphEnd_on_last_line:
  assumes "isLastLine buf q" and "getLineEnd buf q = Inr q"
  shows "getCurrentParagraphEnd buf q = Inr q"
proof -
  from assms(2) have "line q < length buf"
    by (auto simp: getLineEnd_def getLineLength_def readLineAt_def
          split: sum.splits if_splits)
  with assms(1) have "paragraphEndPhase1 buf q = Inr q" "paragraphEndPhase2 buf q = Inr q"
    by (simp_all add: paragraphEndPhase1.simps paragraphEndPhase2.simps getLineAt_def
          isLastLine_def)
  with assms(2) show ?thesis by (simp add: getCurrentParagraphEnd_def)
qed

lemma paragraphEnd_moves_on:
  assumes "\<not> isLastLine buf q" and "buf ! line q = []" and "line q < length buf"
    and "getCurrentParagraphEnd buf q = Inr r"
  shows "line q < line r"
proof -
  from assms(4) obtain p1 p2 where p1: "paragraphEndPhase1 buf q = Inr p1"
    and p2: "paragraphEndPhase2 buf p1 = Inr p2" and le: "getLineEnd buf p2 = Inr r"
    by (auto simp: getCurrentParagraphEnd_def split: sum.splits)
  from p1 assms(1-3) obtain q' where d: "getDown buf q 0 = Inr q'"
    and r: "paragraphEndPhase1 buf q' = Inr p1"
    by (auto simp: paragraphEndPhase1.simps [of buf q] getLineAt_def split: sum.splits)
  from d assms(1,3) have "line q' = line q + 1"
    by (auto simp: getDown_def getDocumentEnd_def isLastLine_def getLineCount_def Let_def
          split: sum.splits if_splits)
  with paragraphEndPhase1_result [OF r] paragraphEndPhase2_result [OF p2]
    getLineEnd_result [OF le]
  show ?thesis by simp
qed

lemma paragraphBeginning_on_first_line:
  assumes "line q = 0" and "character q = 0" and "line q < length buf"
  shows "getCurrentParagraphBeginning buf q = Inr q"
proof -
  from assms have "paragraphBeginPhase1 buf q = Inr q" "paragraphBeginPhase2 buf q = Inr q"
    by (simp_all add: paragraphBeginPhase1.simps paragraphBeginPhase2.simps getLineAt_def
          isFirstLine_def)
  with assms show ?thesis
    by (cases q) (simp add: getCurrentParagraphBeginning_def getLineBegin_def)
qed

lemma paragraphBeginning_moves_on:
  assumes "line q \<noteq> 0" and "buf ! line q = []" and "line q < length buf"
    and "getCurrentParagraphBeginning buf q = Inr r"
  shows "line r < line q"
proof -
  from assms(4) obtain p1 p2 where p1: "paragraphBeginPhase1 buf q = Inr p1"
    and p2: "paragraphBeginPhase2 buf p1 = Inr p2" and r: "r = getLineBegin p2"
    by (auto simp: getCurrentParagraphBeginning_def split: sum.splits)
  from p1 assms(1-3) obtain q' where u: "getUp buf q 0 = Inr q'"
    and r1: "paragraphBeginPhase1 buf q' = Inr p1"
    by (auto simp: paragraphBeginPhase1.simps [of buf q] getLineAt_def isFirstLine_def
          split: sum.splits)
  from u assms(1) have "line q' = line q - 1"
    by (auto simp: getUp_def getDocumentBegin_def Let_def split: sum.splits if_splits)
  moreover from paragraphBeginPhase1_result [OF r1] have "line p1 < length buf" by simp
  ultimately show ?thesis
    using paragraphBeginPhase1_result [OF r1] paragraphBeginPhase2_result [OF p2] r assms(1)
    by (auto simp: getLineBegin_def)
qed

subsection \<open>Paragraph motions: the claims\<close>

lemmas paragraph_eval =
  getCurrentParagraphEnd_def getCurrentParagraphBeginning_def
  paragraphEndPhase1.simps paragraphEndPhase2.simps paragraphBeginPhase1.simps
  paragraphBeginPhase2.simps getLineAt_def isLastLine_def isFirstLine_def
  getLineCount_def getDown_def getUp_def getDocumentEnd_def getDocumentBegin_def
  getLineLength_def readLineAt_def getLineEnd_def getLineBegin_def Let_def js_def

text \<open>
  The result that claim C1 states, \<open>(0, 3)\<close>, is not the result of
  \<open>getCurrentParagraphEnd\<close> in the mode \<open>CharacterWiseExclusive\<close> on the lines \<open>foo\<close>, the
  empty line and \<open>bar\<close>, from \<open>(0, 0)\<close>.
\<close>

theorem paragraphEnd_scenario_counterexample:
  "getCurrentParagraphEnd [js ''foo'', js '''', js ''bar'']
     \<lparr>line = 0, character = 0, positionOptions = Some CharacterWiseExclusive\<rparr>
   \<noteq> Inr \<lparr>line = 0, character = 3, positionOptions = Some CharacterWiseExclusive\<rparr>"
  by (simp add: paragraph_eval)

text \<open>
  Claim C1, amended. In the mode \<open>CharacterWiseExclusive\<close> on the lines \<open>foo\<close>, the empty
  line and \<open>bar\<close>, \<open>getCurrentParagraphEnd\<close> from \<open>(0, 0)\<close> returns \<open>(1, 0)\<close>: the second
  loop goes down from line 0 onto the empty line 1 and stops there, and the result is
  the line end of line 1, whose length is 0.
\<close>

theorem paragraphEnd_scenario:
  "getCurrentParagraphEnd [js ''foo'', js '''', js ''bar'']
     \<lparr>line = 0, character = 0, positionOptions = Some CharacterWiseExclusive\<rparr>
   = Inr \<lparr>line = 1, character = 0, positionOptions = Some CharacterWiseExclusive\<rparr>"
  by (simp add: paragraph_eval)

text \<open>
  Claim C6 fails on the same lines. \<open>getCurrentParagraphEnd\<close> from \<open>(0, 0)\<close> is \<open>(1, 0)\<close>,
  and from \<open>(1, 0)\<close> it is \<open>(2, 2)\<close>; \<open>getCurrentParagraphBeginning\<close> from \<open>(2, 2)\<close> is
  \<open>(1, 0)\<close>, and from \<open>(1, 0)\<close> it is \<open>(0, 0)\<close>.
\<close>

theorem paragraph_not_idempotent_counterexample:
  "getCurrentParagraphEnd [js ''foo'', js '''', js ''bar'']
     \<lparr>line = 0, character = 0, positionOptions = Some CharacterWiseExclusive\<rparr>
   = Inr \<lparr>line = 1, character = 0, positionOptions = Some CharacterWiseExclusive\<rparr>
   \<and> getCurrentParagraphEnd [js ''foo'', js '''', js ''bar'']
     \<lparr>line = 1, character = 0, positionOptions = Some CharacterWiseExclusive\<rparr>
   = Inr \<lparr>line = 2, character = 2, positionOptions = Some CharacterWiseExclusive\<rparr>
   \<and> getCurrentParagraphBeginning [js ''foo'', js '''', js ''bar'']
     \<lparr>line = 2, character = 2, positionOptions = Some CharacterWiseExclusive\<rparr>
   = Inr \<lparr>line = 1, character = 0, positionOptions = Some CharacterWiseExclusive\<rparr>
   \<and> getCurrentParagraphBeginning [js ''foo'', js '''', js ''bar'']
     \<lparr>line = 1, character = 0, positionOptions = Some CharacterWiseExclusive\<rparr>
   = Inr \<lparr>line = 0, character = 0, positionOptions = Some CharacterWiseExclusive\<rparr>"
  by (simp add: paragraph_eval)

text \<open>
  Claim C6, amended. When \<open>getCurrentParagraphEnd\<close> returns a position, applying it to
  that position gives the same position again exactly when the position is on the last
  line of the document; when \<open>getCurrentParagraphBeginning\<close> returns a position, applying
  it again gives the same position exactly when the position is on line 0. Elsewhere the
  first application stops on an empty line, which the second one leaves.
\<close>

theorem paragraph_twice:
  "(getCurrentParagraphEnd buf p = Inr q \<longrightarrow>
      (getCurrentParagraphEnd buf q = Inr q \<longleftrightarrow> isLastLine buf q))
   \<and> (getCurrentParagraphBeginning buf p = Inr q \<longrightarrow>
      (getCurrentParagraphBeginning buf q = Inr q \<longleftrightarrow> line q = 0))"
proof (intro conjI impI)
  assume a: "getCurrentParagraphEnd buf p = Inr q"
  note r = getCurrentParagraphEnd_result [OF a]
  show "getCurrentParagraphEnd buf q = Inr q \<longleftrightarrow> isLastLine buf q"
  proof
    assume again: "getCurrentParagraphEnd buf q = Inr q"
    show "isLastLine buf q"
    proof (rule ccontr)
      assume "\<not> isLastLine buf q"
      with r paragraphEnd_moves_on [of buf q q] again show False by simp
    qed
  next
    assume "isLastLine buf q"
    with r show "getCurrentParagraphEnd buf q = Inr q"
      by (simp add: paragraphEnd_on_last_line)
  qed
next
  assume a: "getCurrentParagraphBeginning buf p = Inr q"
  note r = getCurrentParagraphBeginning_result [OF a]
  show "getCurrentParagraphBeginning buf q = Inr q \<longleftrightarrow> line q = 0"
  proof
    assume again: "getCurrentParagraphBeginning buf q = Inr q"
    show "line q = 0"
    proof (rule ccontr)
      assume "line q \<noteq> 0"
      with r paragraphBeginning_moves_on [of q buf q] again show False by simp
    qed
  next
    assume "line q = 0"
    with r show "getCurrentParagraphBeginning buf q = Inr q"
      by (simp add: paragraphBeginning_on_first_line)
  qed
qed


theorem paragraph_twice_witness:
  "getCurrentParagraphEnd [js ''foo'', js '''', js ''bar'']
     \<lparr>line = 0, character = 0, positionOptions = Some CharacterWiseExclusive\<rparr>
   = Inr \<lparr>line = 1, character = 0, positionOptions = Some CharacterWiseExclusive\<rparr>
   \<and> \<not> isLastLine [js ''foo'', js '''', js ''bar'']
     \<lparr>line = 1, character = 0, positionOptions = Some CharacterWiseExclusive\<rparr>
   \<and> getCurrentParagraphEnd [js ''foo'', js '''', js ''bar'']
     \<lparr>line = 1, character = 0, positionOptions = Some CharacterWiseExclusive\<rparr>
   \<noteq> Inr \<lparr>line = 1, character = 0, positionOptions = Some CharacterWiseExclusive\<rparr>
   \<and> getCurrentParagraphBeginning [js ''foo'', js '''', js ''bar'']
     \<lparr>line = 1, character = 0, positionOptions = Some CharacterWiseExclusive\<rparr>
   = Inr \<lparr>line = 0, character = 0, positionOptions = Some CharacterWiseExclusive\<rparr>
   \<and> getCurrentParagraphBeginning [js ''foo'', js '''', js ''bar'']
     \<lparr>line = 0, character = 0, positionOptions = Some CharacterWiseExclusive\<rparr>
   = Inr \<lparr>line = 0, character = 0, positionOptions = Some CharacterWiseExclusive\<rparr>"
proof -
  have e: "getCurrentParagraphEnd [js ''foo'', js '''', js ''bar'']
      \<lparr>line = 0, character = 0, positionOptions = Some CharacterWiseExclusive\<rparr>
    = Inr \<lparr>line = 1, character = 0, positionOptions = Some CharacterWiseExclusive\<rparr>"
    by (simp add: paragraph_eval)
  have b: "getCurrentParagraphBeginning [js ''foo'', js '''', js ''bar'']
      \<lparr>line = 1, character = 0, positionOptions = Some CharacterWiseExclusive\<rparr>
    = Inr \<lparr>line = 0, character = 0, positionOptions = Some CharacterWiseExclusive\<rparr>"
    by (simp add: paragraph_eval)
  have l: "\<not> isLastLine [js ''foo'', js '''', js ''bar'']
      \<lparr>line = 1, character = 0, positionOptions = Some CharacterWiseExclusive\<rparr>"
    by (simp add: isLastLine_def getLineCount_def)
  from e b l
    paragraph_twice [of "[js ''foo'', js '''', js ''bar'']"
      "\<lparr>line = 0, character = 0, positionOptions = Some CharacterWiseExclusive\<rparr>"
      "\<lparr>line = 1, character = 0, positionOptions = Some CharacterWiseExclusive\<rparr>"]
    paragraph_twice [of "[js ''foo'', js '''', js ''bar'']"
      "\<lparr>line = 1, character = 0, positionOptions = Some CharacterWiseExclusive\<rparr>"
      "\<lparr>line = 0, character = 0, positionOptions = Some CharacterWiseExclusive\<rparr>"]
  show ?thesis by simp
qed

text \<open>
  Claim C10. Let line \<open>line p\<close> of the document be non-empty and consist of tabs and
  spaces only. The first loop of \<open>getCurrentParagraphEnd\<close> and the first loop of
  \<open>getCurrentParagraphBeginning\<close> do not move from \<open>p\<close>. The second loops step over the
  line: from \<open>p\<close> they go one line down (or up) and continue there, unless \<open>p\<close> is on the
  last line (or on line 0). And no paragraph motion, from any position, stops on that line,
  unless it is the last line (for the end) or line 0 (for the beginning).
\<close>

theorem whitespace_line_is_paragraph_line:
  assumes "line p < length buf" and "buf ! line p \<noteq> []"
    and "list_all (\<lambda>c. c = 9 \<or> c = 32) (buf ! line p)"
  shows "paragraphEndPhase1 buf p = Inr p
    \<and> paragraphEndPhase2 buf p =
        (if int (line p) < int (getLineCount buf) - 1
         then (case getDown buf p 0 of Inl e \<Rightarrow> Inl e | Inr p' \<Rightarrow> paragraphEndPhase2 buf p')
         else Inr p)
    \<and> paragraphBeginPhase1 buf p = Inr p
    \<and> paragraphBeginPhase2 buf p =
        (if line p > 0
         then (case getUp buf p 0 of Inl e \<Rightarrow> Inl e | Inr p' \<Rightarrow> paragraphBeginPhase2 buf p')
         else Inr p)
    \<and> (\<forall>p0 q. getCurrentParagraphEnd buf p0 = Inr q \<and> line q = line p
          \<longrightarrow> isLastLine buf q)
    \<and> (\<forall>p0 q. getCurrentParagraphBeginning buf p0 = Inr q \<and> line q = line p
          \<longrightarrow> line q = 0)"
proof (intro conjI allI impI)
  show "paragraphEndPhase1 buf p = Inr p"
    using assms(1,2) by (simp add: paragraphEndPhase1.simps [of buf p] getLineAt_def)
  show "paragraphBeginPhase1 buf p = Inr p"
    using assms(1,2) by (simp add: paragraphBeginPhase1.simps [of buf p] getLineAt_def)
  show "paragraphEndPhase2 buf p =
        (if int (line p) < int (getLineCount buf) - 1
         then (case getDown buf p 0 of Inl e \<Rightarrow> Inl e | Inr p' \<Rightarrow> paragraphEndPhase2 buf p')
         else Inr p)"
    using assms(1,2) by (simp add: paragraphEndPhase2.simps [of buf p] getLineAt_def)
  show "paragraphBeginPhase2 buf p =
        (if line p > 0
         then (case getUp buf p 0 of Inl e \<Rightarrow> Inl e | Inr p' \<Rightarrow> paragraphBeginPhase2 buf p')
         else Inr p)"
    using assms(1,2) by (simp add: paragraphBeginPhase2.simps [of buf p] getLineAt_def)
next
  fix p0 q
  assume "getCurrentParagraphEnd buf p0 = Inr q \<and> line q = line p"
  with getCurrentParagraphEnd_result [of buf p0 q] assms(2)
  show "isLastLine buf q" by auto
next
  fix p0 q
  assume "getCurrentParagraphBeginning buf p0 = Inr q \<and> line q = line p"
  with getCurrentParagraphBeginning_result [of buf p0 q] assms(2)
  show "line q = 0" by auto
qed

theorem whitespace_line_is_paragraph_line_witness:
  "paragraphEndPhase1 [js ''foo'', [32, 9], js ''bar'']
     \<lparr>line = 1, character = 0, positionOptions = Some CharacterWiseExclusive\<rparr>
   = Inr \<lparr>line = 1, character = 0, positionOptions = Some CharacterWiseExclusive\<rparr>
   \<and> paragraphEndPhase2 [js ''foo'', [32, 9], js ''bar'']
     \<lparr>line = 1, character = 0, positionOptions = Some CharacterWiseExclusive\<rparr>
   = Inr \<lparr>line = 2, character = 0, positionOptions = Some CharacterWiseExclusive\<rparr>
   \<and> paragraphBeginPhase1 [js ''foo'', [32, 9], js ''bar'']
     \<lparr>line = 1, character = 0, positionOptions = Some CharacterWiseExclusive\<rparr>
   = Inr \<lparr>line = 1, character = 0, positionOptions = Some CharacterWiseExclusive\<rparr>
   \<and> paragraphBeginPhase2 [js ''foo'', [32, 9], js ''bar'']
     \<lparr>line = 1, character = 0, positionOptions = Some CharacterWiseExclusive\<rparr>
   = Inr \<lparr>line = 0, character = 0, positionOptions = Some CharacterWiseExclusive\<rparr>
   \<and> getCurrentParagraphEnd [js ''foo'', [32, 9], js ''bar'']
     \<lparr>line = 0, character = 0, positionOptions = Some CharacterWiseExclusive\<rparr>
   = Inr \<lparr>line = 2, character = 2, positionOptions = Some CharacterWiseExclusive\<rparr>
   \<and> getCurrentParagraphBeginning [js ''foo'', [32, 9], js ''bar'']
     \<lparr>line = 2, character = 2, positionOptions = Some CharacterWiseExclusive\<rparr>
   = Inr \<lparr>line = 0, character = 0, positionOptions = Some CharacterWiseExclusive\<rparr>"
proof -
  have "line \<lparr>line = 1, character = 0, positionOptions = Some CharacterWiseExclusive\<rparr>
      < length [js ''foo'', [32, 9], js ''bar'']"
    and "[js ''foo'', [32, 9], js ''bar''] !
      line \<lparr>line = 1, character = 0, positionOptions = Some CharacterWiseExclusive\<rparr>
      \<noteq> []"
    and "list_all (\<lambda>c. c = 9 \<or> c = 32) ([js ''foo'', [32, 9], js ''bar''] !
      line \<lparr>line = 1, character = 0, positionOptions = Some CharacterWiseExclusive\<rparr>)"
    by simp_all
  note t = whitespace_line_is_paragraph_line [OF this]
  have "paragraphEndPhase1 [js ''foo'', [32, 9], js ''bar'']
      \<lparr>line = 1, character = 0, positionOptions = Some CharacterWiseExclusive\<rparr>
    = Inr \<lparr>line = 1, character = 0, positionOptions = Some CharacterWiseExclusive\<rparr>"
    using t by blast
  moreover have "paragraphBeginPhase1 [js ''foo'', [32, 9], js ''bar'']
      \<lparr>line = 1, character = 0, positionOptions = Some CharacterWiseExclusive\<rparr>
    = Inr \<lparr>line = 1, character = 0, positionOptions = Some CharacterWiseExclusive\<rparr>"
    using t by blast
  moreover have "paragraphEndPhase2 [js ''foo'', [32, 9], js ''bar'']
      \<lparr>line = 1, character = 0, positionOptions = Some CharacterWiseExclusive\<rparr>
    = Inr \<lparr>line = 2, character = 0, positionOptions = Some CharacterWiseExclusive\<rparr>"
    by (simp add: paragraph_eval)
  moreover have "paragraphBeginPhase2 [js ''foo'', [32, 9], js ''bar'']
      \<lparr>line = 1, character = 0, positionOptions = Some CharacterWiseExclusive\<rparr>
    = Inr \<lparr>line = 0, character = 0, positionOptions = Some CharacterWiseExclusive\<rparr>"
    by (simp add: paragraph_eval)
  moreover have "getCurrentParagraphEnd [js ''foo'', [32, 9], js ''bar'']
      \<lparr>line = 0, character = 0, positionOptions = Some CharacterWiseExclusive\<rparr>
    = Inr \<lparr>line = 2, character = 2, positionOptions = Some CharacterWiseExclusive\<rparr>"
    by (simp add: paragraph_eval)
  moreover have "getCurrentParagraphBeginning [js ''foo'', [32, 9], js ''bar'']
      \<lparr>line = 2, character = 2, positionOptions = Some CharacterWiseExclusive\<rparr>
    = Inr \<lparr>line = 0, character = 0, positionOptions = Some CharacterWiseExclusive\<rparr>"
    by (simp add: paragraph_eval)
  ultimately show ?thesis by simp
qed

subsection \<open>The loop over the matches\<close>

text \<open>
  On the empty string the first alternative matches the empty string at index 0, and
  \<open>lastIndex\<close> stays 0: the next \<open>exec\<close> finds the same match, and the loop never ends.
\<close>

lemma regexExec_empty: "regexExec cs [] 0 = Some (0, 0)"
  by (simp add: regexExec.simps matchAt_def)

lemma execLoop_empty_aux:
  assumes "execLoop push cs s li acc = Some r"
  shows "\<not> (s = [] \<and> li = 0)"
  using assms
proof (rule execLoop.raw_induct [rotated, where P = "\<lambda>push cs s li acc r. \<not> (s = [] \<and> li = 0)"])
  fix f :: "(nat \<Rightarrow> nat \<Rightarrow> 'a) \<Rightarrow> nat list \<Rightarrow> nat list \<Rightarrow> nat \<Rightarrow> 'a list \<Rightarrow> 'a list option"
    and push cs s li acc r
  assume IH: "\<And>p c s l a y. f p c s l a = Some y \<Longrightarrow> \<not> (s = [] \<and> l = 0)"
    and step: "(case regexExec cs s li of None \<Rightarrow> Some acc
                | Some (index, len) \<Rightarrow> f push cs s (index + len) (acc @ [push index len])) = Some r"
  show "\<not> (s = [] \<and> li = 0)"
  proof
    assume "s = [] \<and> li = 0"
    with step have "f push cs [] 0 (acc @ [push 0 0]) = Some r"
      by (simp add: regexExec_empty)
    from IH [OF this] show False by simp
  qed
qed

lemma execLoop_empty: "execLoop push cs [] 0 acc = None"
  using execLoop_empty_aux [of push cs "[]" 0 acc] by (cases "execLoop push cs [] 0 acc") auto

text \<open>
  On a non-empty string every match is at least one character long, so \<open>lastIndex\<close>
  grows with every match and the loop ends.
\<close>

lemma regexExec_Some:
  "regexExec cs s li = Some (i, len) \<Longrightarrow> li \<le> i \<and> i \<le> length s \<and> matchAt cs s i = Some len"
proof (induction cs s li rule: regexExec.induct)
  case (1 cs s li)
  note e = "1.prems" [unfolded regexExec.simps [of cs s li]]
  show ?case
  proof (cases "matchAt cs s li")
    case None
    with e have le: "\<not> length s < li" and r: "regexExec cs s (li + 1) = Some (i, len)"
      by (auto split: if_splits)
    from "1.IH" [OF le None r] show ?thesis by simp
  next
    case (Some l)
    with e show ?thesis by (auto split: if_splits)
  qed
qed

lemma matchAt_nonempty: "matchAt cs s i = Some len \<Longrightarrow> s \<noteq> [] \<Longrightarrow> 0 < len"
  by (auto simp: matchAt_def Let_def split: if_splits)

lemma execLoop_returns:
  assumes "s \<noteq> []"
  shows "\<exists>ps. execLoop push cs s li acc = Some ps"
proof (induction "Suc (length s) - li" arbitrary: li acc rule: less_induct)
  case less
  show ?case
  proof (cases "regexExec cs s li")
    case None
    then show ?thesis by (simp add: execLoop.simps [of push cs s li acc])
  next
    case (Some r)
    obtain i len where r: "r = (i, len)" by (cases r)
    from regexExec_Some [OF Some [unfolded r]] matchAt_nonempty [OF _ assms]
    have "li \<le> i" "i \<le> length s" "0 < len" by auto
    then have "Suc (length s) - (i + len) < Suc (length s) - li" by arith
    from less [OF this] Some r show ?thesis
      by (simp add: execLoop.simps [of push cs s li acc])
  qed
qed

subsection \<open>Word motions: the claims\<close>

lemmas word_eval =
  getWordLeft_def getWordRight_def getCurrentWordEnd_def
  getWordLeftWithRegex_def getWordRightWithRegex_def getCurrentWordEndWithRegex_def
  wordLeftStart_def wordEndStart_def pastLineEndNotLast_def goToNextLine_def
  getLineAt_def isLastLine_def isFirstLine_def getLineCount_def getDocumentEnd_def
  getLineLength_def readLineAt_def getLineEnd_def getLineBegin_def Let_def


text \<open>
  A word motion does not return exactly when the line it searches is empty.
\<close>

lemma execLoop_None_iff: "execLoop push cs s 0 [] = None \<longleftrightarrow> s = []"
proof (cases "s = []")
  case True
  then show ?thesis by (simp add: execLoop_empty)
next
  case False
  from execLoop_returns [OF False, of push cs 0 "[]"] False show ?thesis by auto
qed

lemma getWordLeftWithRegex_None_iff:
  "getWordLeftWithRegex cs buf p = None \<longleftrightarrow>
     (\<exists>workingPosition currentLine currentCharacter.
        wordLeftStart buf p = Inr (workingPosition, currentLine, currentCharacter)
        \<and> lineText currentLine = [])"
  by (auto simp: getWordLeftWithRegex_def execLoop_None_iff execLoop_empty
        split: sum.splits option.splits prod.splits)

lemma getWordRightWithRegex_None_iff:
  "getWordRightWithRegex cs buf p = None \<longleftrightarrow>
     pastLineEndNotLast buf p = Inr False \<and> line p < length buf \<and> buf ! line p = []"
  by (auto simp: getWordRightWithRegex_def execLoop_None_iff execLoop_empty getLineAt_def
        split: sum.splits option.splits bool.splits if_splits)

lemma getCurrentWordEndWithRegex_None_iff:
  "getCurrentWordEndWithRegex cs buf p = None \<longleftrightarrow>
     (\<exists>workingPosition currentLine currentCharacter.
        wordEndStart buf p = Inr (workingPosition, currentLine, currentCharacter)
        \<and> lineText currentLine = [])"
  by (auto simp: getCurrentWordEndWithRegex_def execLoop_None_iff execLoop_empty
        split: sum.splits option.splits prod.splits)

text \<open>
  Claim C2. On the document whose only line is empty, \<open>getWordLeft\<close> at \<open>(0, 0)\<close> never
  returns: no offset is found, the line is the first one, and the result would be the
  line beginning \<open>(0, 0)\<close>, but the loop over the matches of the empty line never ends.
\<close>

theorem getWordLeft_empty_line_never_returns:
  "getWordLeft [[]] \<lparr>line = 0, character = 0, positionOptions = Some CharacterWiseExclusive\<rparr>
   = None"
  by (simp add: word_eval execLoop_empty)

text \<open>
  Claim C3. On the document whose only line is empty, \<open>getWordRight\<close> at \<open>(0, 0)\<close> never
  returns: the line is the last one, no offset is found, and the result would be the line
  end \<open>(0, 0)\<close>, but the loop over the matches of the empty line never ends.
\<close>

theorem getWordRight_empty_line_never_returns:
  "getWordRight [[]] \<lparr>line = 0, character = 0, positionOptions = Some CharacterWiseExclusive\<rparr>
   = None"
  by (simp add: word_eval execLoop_empty)

text \<open>
  Claim C4. On the document whose only line is empty, \<open>getCurrentWordEnd\<close> at \<open>(0, 0)\<close>
  never returns: the line is the last one, no offset is found, and the result would be
  the line end \<open>(0, 0)\<close>, but the loop over the matches of the empty line never ends.
\<close>

theorem getCurrentWordEnd_empty_line_never_returns:
  "getCurrentWordEnd [[]] \<lparr>line = 0, character = 0, positionOptions = Some CharacterWiseExclusive\<rparr>
   = None"
  by (simp add: word_eval execLoop_empty)

text \<open>
  On non-empty lines the motions return. In the mode \<open>CharacterWiseExclusive\<close>:
  \<open>getWordLeft\<close> on the single line \<open>foo bar\<close> at character 4 is \<open>(0, 0)\<close>; \<open>getWordRight\<close>
  on a last line \<open>abc\<close> at character 2 is the same position; \<open>getCurrentWordEnd\<close> on the
  single line \<open>foo bar\<close> at character 2 is \<open>(0, 6)\<close>.
\<close>

lemma starts_foo_bar:
  "execLoop (\<lambda>index len. index) NonWordCharacters (js ''foo bar'') 0 [] = Some [0, 4]"
  by (simp add: execLoop.simps regexExec.simps matchAt_def NonWordCharacters_def
        jsWhiteSpace_def js_def)

lemma starts_abc:
  "execLoop (\<lambda>index len. index) NonWordCharacters (js ''abc'') 0 [] = Some [0]"
  by (simp add: execLoop.simps regexExec.simps matchAt_def NonWordCharacters_def
        jsWhiteSpace_def js_def)

lemma ends_foo_bar:
  "execLoop (\<lambda>index len. int index + int len - 1) NonWordCharacters (js ''foo bar'') 0 []
   = Some [2, 6]"
  by (simp add: execLoop.simps regexExec.simps matchAt_def NonWordCharacters_def
        jsWhiteSpace_def js_def)

lemma getWordLeft_scenario:
  "getWordLeft [js ''foo bar'']
     \<lparr>line = 0, character = 4, positionOptions = Some CharacterWiseExclusive\<rparr>
   = Some (Inr \<lparr>line = 0, character = 0, positionOptions = Some CharacterWiseExclusive\<rparr>)"
  by (simp add: word_eval starts_foo_bar)

lemma getWordRight_scenario:
  "getWordRight (pre @ [js ''abc''])
     \<lparr>line = length pre, character = 2, positionOptions = Some CharacterWiseExclusive\<rparr>
   = Some (Inr \<lparr>line = length pre, character = 2, positionOptions = Some CharacterWiseExclusive\<rparr>)"
  by (simp add: word_eval starts_abc) (simp add: js_def)

lemma getCurrentWordEnd_example:
  "getCurrentWordEnd [js ''foo bar'']
     \<lparr>line = 0, character = 2, positionOptions = Some CharacterWiseExclusive\<rparr>
   = Some (Inr \<lparr>line = 0, character = 6, positionOptions = Some CharacterWiseExclusive\<rparr>)"
  by (simp add: word_eval ends_foo_bar)

subsection \<open>Word motions: the source against the specification\<close>

text \<open>
  For a position on a line of the document, with one of the two caret modes: whenever the
  loop over the matches of the searched line ends, with the offsets it has collected, each
  word motion returns the position that the specification describes for these offsets. By
  \<open>execLoop_returns\<close> the loop ends on every non-empty line.
\<close>

lemma getLineLength_spec:
  "ln < length buf \<Longrightarrow>
   mode = Some CharacterWiseExclusive \<or> mode = Some CharacterWiseInclusive \<Longrightarrow>
   getLineLength buf ln mode = Inr (lineLength_spec buf ln mode)"
  by (cases "buf ! ln")
     (auto simp: getLineLength_def readLineAt_def lineLength_spec_def Let_def
        CharacterWiseExclusive_def CharacterWiseInclusive_def)

lemma pastLineEndNotLast_spec:
  "line p < length buf \<Longrightarrow>
   positionOptions p = Some CharacterWiseExclusive
     \<or> positionOptions p = Some CharacterWiseInclusive \<Longrightarrow>
   pastLineEndNotLast buf p = Inr (pastLineEnd_spec buf p)"
  by (auto simp: pastLineEndNotLast_def pastLineEnd_spec_def getLineEnd_def
        getLineLength_spec isLastLine_def getLineCount_def)

lemma goToNextLine_spec:
  "line p + 1 < length buf \<Longrightarrow> goToNextLine buf p = Inr (nextLineStart_spec buf p)"
  by (simp add: goToNextLine_def getLineAt_def nextLineStart_spec_def firstNonBlank_spec_def)

lemma getWordRightWithRegex_refines:
  assumes "line p < length buf"
    and "positionOptions p = Some CharacterWiseExclusive
         \<or> positionOptions p = Some CharacterWiseInclusive"
    and "execLoop (\<lambda>index len. index) cs (buf ! line p) 0 [] = Some offsets"
  shows "getWordRightWithRegex cs buf p = Some (Inr (wordRight_spec buf p offsets))"
proof (cases "pastLineEnd_spec buf p")
  case True
  then have "line p + 1 < length buf"
    using assms(1) by (auto simp: pastLineEnd_spec_def)
  with True assms(1,2) show ?thesis
    by (simp add: getWordRightWithRegex_def pastLineEndNotLast_spec goToNextLine_spec
          wordRight_spec_def)
next
  case False
  have de: "getDocumentEnd buf p =
      Inr \<lparr>line = length buf - 1,
           character = lineLength_spec buf (length buf - 1) (positionOptions p),
           positionOptions = positionOptions p\<rparr>"
    using assms(1,2) by (auto simp: getDocumentEnd_def getLineCount_def getLineLength_spec Let_def)
  have nl: "line p + 1 \<noteq> length buf \<Longrightarrow> goToNextLine buf p = Inr (nextLineStart_spec buf p)"
    using assms(1) by (intro goToNextLine_spec) simp
  have le: "getLineEnd buf p =
      Inr \<lparr>line = line p, character = lineLength_spec buf (line p) (positionOptions p),
           positionOptions = positionOptions p\<rparr>"
    using assms(1,2) by (auto simp: getLineEnd_def getLineLength_spec)
  from False assms show ?thesis
    by (auto simp: getWordRightWithRegex_def pastLineEndNotLast_spec wordRight_spec_def
          getLineAt_def de le nl split: option.splits)
qed

lemma wordLeftStart_spec:
  assumes "line p < length buf"
    and "positionOptions p = Some CharacterWiseExclusive
         \<or> positionOptions p = Some CharacterWiseInclusive"
  shows "\<exists>wp ln. wordLeftStart buf p =
           Inr (wp, ln,
                if wordLeft_onPrevious_spec buf p
                then lineLength_spec buf (line p - 1) (positionOptions p) + 1
                else character p)
         \<and> line wp = wordLeft_searchLine_spec buf p
         \<and> positionOptions wp = positionOptions p
         \<and> lineText ln = buf ! wordLeft_searchLine_spec buf p"
  using assms
  by (auto simp: wordLeftStart_def getLineAt_def isFirstLine_def wordLeft_onPrevious_spec_def
        wordLeft_searchLine_spec_def firstNonBlank_spec_def getLineEnd_def getLineLength_spec
        Let_def)

lemma getWordLeftWithRegex_refines:
  assumes "line p < length buf"
    and "positionOptions p = Some CharacterWiseExclusive
         \<or> positionOptions p = Some CharacterWiseInclusive"
    and "execLoop (\<lambda>index len. index) cs (buf ! wordLeft_searchLine_spec buf p) 0 []
         = Some offsets"
  shows "getWordLeftWithRegex cs buf p = Some (Inr (wordLeft_spec buf p offsets))"
proof -
  from wordLeftStart_spec [OF assms(1,2)] obtain wp ln where
    st: "wordLeftStart buf p =
           Inr (wp, ln,
                if wordLeft_onPrevious_spec buf p
                then lineLength_spec buf (line p - 1) (positionOptions p) + 1
                else character p)"
    and wp: "line wp = wordLeft_searchLine_spec buf p" "positionOptions wp = positionOptions p"
    and ln: "lineText ln = buf ! wordLeft_searchLine_spec buf p"
    by blast
  have le: "line p \<noteq> 0 \<Longrightarrow>
      getLineEnd buf \<lparr>line = line p - 1, character = 0, positionOptions = positionOptions p\<rparr>
      = Inr \<lparr>line = line p - 1,
             character = lineLength_spec buf (line p - 1) (positionOptions p),
             positionOptions = positionOptions p\<rparr>"
    using assms(1,2) by (auto simp: getLineEnd_def getLineLength_spec)
  from st wp ln assms(3) le show ?thesis
    by (auto simp: getWordLeftWithRegex_def wordLeft_spec_def getLineBegin_def Let_def
          split: option.splits)
qed

lemma wordEndStart_spec:
  assumes "line p < length buf"
    and "positionOptions p = Some CharacterWiseExclusive
         \<or> positionOptions p = Some CharacterWiseInclusive"
  shows "\<exists>wp ln. wordEndStart buf p =
           Inr (wp, ln, if pastLineEnd_spec buf p then 0 else character p)
         \<and> line wp = currentWordEnd_searchLine_spec buf p
         \<and> positionOptions wp = positionOptions p
         \<and> lineText ln = buf ! currentWordEnd_searchLine_spec buf p"
proof (cases "pastLineEnd_spec buf p")
  case True
  then have "line p + 1 < length buf"
    using assms(1) by (auto simp: pastLineEnd_spec_def)
  with True assms show ?thesis
    by (simp add: wordEndStart_def getLineAt_def pastLineEndNotLast_spec
          currentWordEnd_searchLine_spec_def)
next
  case False
  with assms show ?thesis
    by (simp add: wordEndStart_def getLineAt_def pastLineEndNotLast_spec
          currentWordEnd_searchLine_spec_def)
qed

lemma getCurrentWordEndWithRegex_refines:
  assumes "line p < length buf"
    and "positionOptions p = Some CharacterWiseExclusive
         \<or> positionOptions p = Some CharacterWiseInclusive"
    and "execLoop (\<lambda>index len. int index + int len - 1) cs
           (buf ! currentWordEnd_searchLine_spec buf p) 0 [] = Some offsets"
  shows "getCurrentWordEndWithRegex cs buf p = Some (Inr (currentWordEnd_spec buf p offsets))"
proof -
  from wordEndStart_spec [OF assms(1,2)] obtain wp ln where
    st: "wordEndStart buf p = Inr (wp, ln, if pastLineEnd_spec buf p then 0 else character p)"
    and wp: "line wp = currentWordEnd_searchLine_spec buf p"
      "positionOptions wp = positionOptions p"
    and ln: "lineText ln = buf ! currentWordEnd_searchLine_spec buf p"
    by blast
  have le: "getLineEnd buf p =
      Inr \<lparr>line = line p, character = lineLength_spec buf (line p) (positionOptions p),
           positionOptions = positionOptions p\<rparr>"
    using assms(1,2) by (auto simp: getLineEnd_def getLineLength_spec)
  from st wp ln assms(3) le show ?thesis
    by (auto simp: getCurrentWordEndWithRegex_def currentWordEnd_spec_def Let_def
          split: option.splits)
qed

lemma getWordLeftWithRegex_on_nonempty_line:
  assumes "line p < length buf"
    and "positionOptions p = Some CharacterWiseExclusive
         \<or> positionOptions p = Some CharacterWiseInclusive"
    and "buf ! wordLeft_searchLine_spec buf p \<noteq> []"
  shows "\<exists>offsets.
           execLoop (\<lambda>index len. index) cs (buf ! wordLeft_searchLine_spec buf p) 0 []
             = Some offsets
           \<and> getWordLeftWithRegex cs buf p = Some (Inr (wordLeft_spec buf p offsets))"
  using execLoop_returns [OF assms(3)] getWordLeftWithRegex_refines [OF assms(1,2)]
  by blast

lemma getWordRightWithRegex_on_nonempty_line:
  assumes "line p < length buf"
    and "positionOptions p = Some CharacterWiseExclusive
         \<or> positionOptions p = Some CharacterWiseInclusive"
    and "buf ! line p \<noteq> []"
  shows "\<exists>offsets.
           execLoop (\<lambda>index len. index) cs (buf ! line p) 0 [] = Some offsets
           \<and> getWordRightWithRegex cs buf p = Some (Inr (wordRight_spec buf p offsets))"
  using execLoop_returns [OF assms(3)] getWordRightWithRegex_refines [OF assms(1,2)]
  by blast

lemma getCurrentWordEndWithRegex_on_nonempty_line:
  assumes "line p < length buf"
    and "positionOptions p = Some CharacterWiseExclusive
         \<or> positionOptions p = Some CharacterWiseInclusive"
    and "buf ! currentWordEnd_searchLine_spec buf p \<noteq> []"
  shows "\<exists>offsets.
           execLoop (\<lambda>index len. int index + int len - 1) cs
             (buf ! currentWordEnd_searchLine_spec buf p) 0 [] = Some offsets
           \<and> getCurrentWordEndWithRegex cs buf p
               = Some (Inr (currentWordEnd_spec buf p offsets))"
  using execLoop_returns [OF assms(3)] getCurrentWordEndWithRegex_refines [OF assms(1,2)]
  by blast

end
